theory Spec2Isabelle
  imports Main "HOL-Library.Sublist"
begin

section \<open>Python values, errors and the objects of \<open>rtwo/driver.py\<close>\<close>

text \<open>
  The driver classes of \<open>rtwo/driver.py\<close> are embedded as functions over explicit
  arguments. Every \<open>raise\<close> of the source, and every exception Python itself raises on
  a missing key or attribute, is a value \<open>Inl e\<close> of a sum type.
\<close>

datatype prim = PNone | PBool bool | PInt int | PStr string

datatype error =
    MissingArgsException string
  | ServiceException string
  | DeploymentError string
  | AttributeError string
  | KeyError string
  | TypeError string
  | NotImplementedError
  | ProviderError string

text \<open>A libcloud object (Node, NodeImage, NodeSize, StorageVolume): an id and its
  \<open>extra\<close> dictionary.\<close>

record lc_object =
  lc_id :: string
  lc_extra :: "string \<rightharpoonup> prim"

text \<open>The domain wrappers: \<open>instance._node\<close>, \<open>instance.id\<close>, \<open>instance.extra\<close>,
  \<open>machine.alias\<close>, \<open>machine._image\<close>.\<close>

record esh_instance =
  inst_id :: string
  inst_node :: lc_object
  inst_extra :: "string \<rightharpoonup> prim"

record esh_machine =
  machine_alias :: string
  machine_image :: lc_object

record esh_size =
  size_raw :: lc_object

record esh_volume =
  volume_raw :: lc_object

text \<open>\<open>d[k]\<close> on a dictionary raises \<open>KeyError\<close> on a missing key.\<close>

definition getitem :: "(string \<rightharpoonup> 'v) \<Rightarrow> string \<Rightarrow> error + 'v" where
  "getitem d k = (case d k of None \<Rightarrow> Inl (KeyError k) | Some v \<Rightarrow> Inr v)"

section \<open>\<open>OSDriver._is_active_instance\<close>\<close>

definition is_active_instance :: "esh_instance \<Rightarrow> error + bool" where
  "is_active_instance inst =
     (case getitem (inst_extra inst) ''status'' of
        Inl e \<Rightarrow> Inl e
      | Inr status \<Rightarrow>
     (case getitem (inst_extra inst) ''task'' of
        Inl e \<Rightarrow> Inl e
      | Inr task \<Rightarrow>
     (case getitem (inst_extra inst) ''power'' of
        Inl e \<Rightarrow> Inl e
      | Inr power_state \<Rightarrow>
          if status = PStr ''active'' then
            (if task \<notin> set [PStr ''deleting'', PStr ''suspending''] then Inr True
             else Inr False)
          else if (status = PStr ''build'' \<or> status = PStr ''resize'')
                  \<and> task \<noteq> PStr ''deleting'' then Inr True
          else Inr False)))"

section \<open>Arguments, the Connection and the trace of its calls\<close>

text \<open>A deployment plan: libcloud's \<open>ScriptDeployment(script, name)\<close> and
  \<open>MultiStepDeployment(steps)\<close>, and \<open>LoggedScriptDeployment(script, name, logfile)\<close> of
  \<open>rtwo.drivers.common\<close>.\<close>

datatype deployment =
    ScriptDeployment string string
  | LoggedScriptDeployment string string string
  | MultiStepDeployment "deployment list"

text \<open>The values that travel in \<open>*args\<close> and \<open>**kwargs\<close>.\<close>

datatype pyval =
    VPrim prim
  | VInstance esh_instance
  | VNode lc_object
  | VDeployment deployment

type_synonym kwargs = "string \<rightharpoonup> pyval"

text \<open>Python truthiness, as \<open>if not kwargs.get('deploy')\<close> uses it.\<close>

fun truthy :: "pyval \<Rightarrow> bool" where
  "truthy (VPrim PNone) = False"
| "truthy (VPrim (PBool b)) = b"
| "truthy (VPrim (PInt n)) = (n \<noteq> 0)"
| "truthy (VPrim (PStr s)) = (s \<noteq> [])"
| "truthy (VInstance _) = True"
| "truthy (VNode _) = True"
| "truthy (VDeployment _) = True"

text \<open>\<open>kwargs.get(k)\<close> and \<open>kwargs.get(k, default)\<close>.\<close>

definition kwargs_get :: "kwargs \<Rightarrow> string \<Rightarrow> pyval \<Rightarrow> pyval" where
  "kwargs_get kwargs k dflt = (case kwargs k of None \<Rightarrow> dflt | Some v \<Rightarrow> v)"

text \<open>The world outside the driver: the Connection primitives invoked so far, each with
  the arguments it received, the lines handed to the logger, and what \<open>str()\<close> gives
  for an object that defines no \<open>__str__\<close> (Python prints its address).\<close>

datatype call = Call string "pyval list" kwargs

datatype log_entry =
    LogDebug string
  | LogInfo string
  | LogError string
  | LogExcInfo error

record world =
  calls :: "call list"
  logged :: "log_entry list"
  str_of_object :: "pyval \<Rightarrow> string"

definition invoke :: "string \<Rightarrow> pyval list \<Rightarrow> kwargs \<Rightarrow> world \<Rightarrow> world" where
  "invoke name args kwargs w = w\<lparr>calls := calls w @ [Call name args kwargs]\<rparr>"

definition logger :: "log_entry \<Rightarrow> world \<Rightarrow> world" where
  "logger entry w = w\<lparr>logged := logged w @ [entry]\<rparr>"

text \<open>The Connection (the libcloud driver object behind \<open>self._connection\<close>) is outside
  this file: each primitive is a field giving the outcome of a call, a result or the
  error it raises. The two region attributes are the ones \<open>OSDriver.__init__\<close> assigns.\<close>

record lc_connection =
  list_nodes :: "error + lc_object list"
  list_images :: "error + lc_object list"
  list_sizes :: "error + lc_object list"
  list_volumes :: "pyval list \<Rightarrow> kwargs \<Rightarrow> error + lc_object list"
  ex_deploy_to_node :: "pyval list \<Rightarrow> kwargs \<Rightarrow> error + pyval"
  deploy_node :: "pyval list \<Rightarrow> kwargs \<Rightarrow> error + pyval"
  ex_force_service_region :: "string option"
  service_region :: "string option"

section \<open>Identity, Provider and the driver object\<close>

text \<open>\<open>identity.user\<close> is a plain string or a user object with a \<open>username\<close> field
  (\<open>Django.contrib.auth.models.User\<close>).\<close>

datatype identity_user = UserStr string | UserObj string

datatype identity_cls = AWSIdentity | EucaIdentity | OSIdentity | OtherIdentity

datatype provider_cls = AWSProvider | EucaProvider | OSProvider | OtherProvider

record esh_identity =
  identity_class :: identity_cls
  user :: identity_user

text \<open>A Provider: its variant, \<open>get_driver\<close> (which opens the Connection), and the
  conversion classes \<open>instanceCls\<close>, \<open>machineCls\<close>, \<open>sizeCls\<close>, \<open>volumeCls\<close>, each a
  constructor from the raw libcloud object.\<close>

record esh_provider =
  provider_class :: provider_cls
  get_driver :: "esh_identity \<Rightarrow> error + lc_connection"
  instanceCls :: "lc_object \<Rightarrow> esh_instance"
  machineCls :: "lc_object \<Rightarrow> esh_machine"
  sizeCls :: "lc_object \<Rightarrow> esh_size"
  volumeCls :: "lc_object \<Rightarrow> esh_volume"

datatype driver_cls = LibcloudDriver | EshDriver | OSDriver | AWSDriver | EucaDriver

record driver =
  identity :: esh_identity
  provider :: esh_provider
  connection :: lc_connection

text \<open>The class attributes \<open>providerCls\<close> and \<open>identityCls\<close>: \<open>None\<close> in \<open>BaseDriver\<close>,
  bound in the three specialized drivers.\<close>

fun providerCls :: "driver_cls \<Rightarrow> provider_cls option" where
  "providerCls OSDriver = Some OSProvider"
| "providerCls AWSDriver = Some AWSProvider"
| "providerCls EucaDriver = Some EucaProvider"
| "providerCls _ = None"

fun identityCls :: "driver_cls \<Rightarrow> identity_cls option" where
  "identityCls OSDriver = Some OSIdentity"
| "identityCls AWSDriver = Some AWSIdentity"
| "identityCls EucaDriver = Some EucaIdentity"
| "identityCls _ = None"

text \<open>\<open>isinstance(obj, cls)\<close>: a \<open>TypeError\<close> when \<open>cls\<close> is \<open>None\<close>.\<close>

definition isinstance :: "'c \<Rightarrow> 'c option \<Rightarrow> error + bool" where
  "isinstance obj_class cls =
     (case cls of
        None \<Rightarrow> Inl (TypeError ''isinstance() arg 2 must be a class, type, or tuple of classes and types'')
      | Some c \<Rightarrow> Inr (obj_class = c))"

text \<open>The settings module, read-only.\<close>

record settings =
  SERVER_URL :: string
  INSTANCE_SERVICE_URL :: string
  ATMOSPHERE_VNC_LICENSE :: string
  OPENSTACK_DEFAULT_REGION :: string

section \<open>Construction\<close>

text \<open>\<open>LibcloudDriver.__init__\<close>. The arguments may be \<open>None\<close>.\<close>

definition LibcloudDriver_init ::
  "esh_provider option \<Rightarrow> esh_identity option \<Rightarrow> error + driver" where
  "LibcloudDriver_init provider_arg identity_arg =
     (case (provider_arg, identity_arg) of
        (Some p, Some i) \<Rightarrow>
          (case get_driver p i of
             Inl e \<Rightarrow> Inl e
           | Inr c \<Rightarrow> Inr \<lparr>identity = i, provider = p, connection = c\<rparr>)
      | _ \<Rightarrow> Inl (MissingArgsException
                 ''LibcloudDriver is Missing Required Identity and/or Provider.''))"

text \<open>\<open>EshDriver.__init__\<close>, for the class \<open>cls\<close> being constructed: the superclass
  constructor first, then the two \<open>isinstance\<close> tests (\<open>and\<close> evaluates the second only
  when the first holds). After the superclass constructor has returned, \<open>self.provider\<close>
  and \<open>self.identity\<close> are the two arguments.\<close>

definition EshDriver_init ::
  "driver_cls \<Rightarrow> esh_provider option \<Rightarrow> esh_identity option \<Rightarrow> error + driver" where
  "EshDriver_init cls provider_arg identity_arg =
     (case LibcloudDriver_init provider_arg identity_arg of
        Inl e \<Rightarrow> Inl e
      | Inr self \<Rightarrow>
          (case isinstance (provider_class (provider self)) (providerCls cls) of
             Inl e \<Rightarrow> Inl e
           | Inr is_provider \<Rightarrow>
               if \<not> is_provider then Inl (ServiceException ''Wrong Provider or Identity'')
               else
                 (case isinstance (identity_class (identity self)) (identityCls cls) of
                    Inl e \<Rightarrow> Inl e
                  | Inr is_identity \<Rightarrow>
                      if \<not> is_identity
                      then Inl (ServiceException ''Wrong Provider or Identity'')
                      else Inr self)))"

text \<open>\<open>OSDriver.__init__\<close>: region pinning after the inherited constructor.\<close>

definition OSDriver_init ::
  "settings \<Rightarrow> esh_provider option \<Rightarrow> esh_identity option \<Rightarrow> error + driver" where
  "OSDriver_init cfg provider_arg identity_arg =
     (case EshDriver_init OSDriver provider_arg identity_arg of
        Inl e \<Rightarrow> Inl e
      | Inr self \<Rightarrow>
          Inr (self\<lparr>connection := (connection self)
                 \<lparr>ex_force_service_region := Some (OPENSTACK_DEFAULT_REGION cfg),
                  service_region := Some (OPENSTACK_DEFAULT_REGION cfg)\<rparr>\<rparr>))"

text \<open>Calling a driver class: the constructor that class inherits or defines.\<close>

fun new_driver ::
  "driver_cls \<Rightarrow> settings \<Rightarrow> esh_provider option \<Rightarrow> esh_identity option \<Rightarrow> error + driver"
  where
  "new_driver LibcloudDriver cfg p i = LibcloudDriver_init p i"
| "new_driver OSDriver cfg p i = OSDriver_init cfg p i"
| "new_driver cls cfg p i = EshDriver_init cls p i"

section \<open>The read operations of \<open>LibcloudDriver\<close> and \<open>EshDriver\<close>\<close>

type_synonym 'a action = "world \<Rightarrow> (error + 'a) \<times> world"

definition LibcloudDriver_list_instances ::
  "driver \<Rightarrow> pyval list \<Rightarrow> kwargs \<Rightarrow> lc_object list action" where
  "LibcloudDriver_list_instances self args kwargs w =
     (list_nodes (connection self), invoke ''list_nodes'' [] Map.empty w)"

definition LibcloudDriver_list_machines ::
  "driver \<Rightarrow> pyval list \<Rightarrow> kwargs \<Rightarrow> lc_object list action" where
  "LibcloudDriver_list_machines self args kwargs w =
     (list_images (connection self), invoke ''list_images'' [] Map.empty w)"

definition LibcloudDriver_list_sizes ::
  "driver \<Rightarrow> pyval list \<Rightarrow> kwargs \<Rightarrow> lc_object list action" where
  "LibcloudDriver_list_sizes self args kwargs w =
     (list_sizes (connection self), invoke ''list_sizes'' [] Map.empty w)"

definition LibcloudDriver_list_volumes ::
  "driver \<Rightarrow> pyval list \<Rightarrow> kwargs \<Rightarrow> lc_object list action" where
  "LibcloudDriver_list_volumes self args kwargs w =
     (list_volumes (connection self) args kwargs, invoke ''list_volumes'' args kwargs w)"

text \<open>
  Modelled from the spec: the class methods \<open>get_instances\<close>, \<open>get_machines\<close>,
  \<open>get_sizes\<close> and \<open>get_volumes\<close> of the Provider's conversion classes
  (\<open>rtwo.instance\<close>, \<open>rtwo.machine\<close>, \<open>rtwo.size\<close>, \<open>rtwo.volume\<close>) are not part of
  \<open>driver.py\<close>. The spec: every read operation "converts raw results into domain
  objects using the Provider's registered conversion function for that object kind",
  "preserving count and order". \<open>get_instances\<close> and \<open>get_volumes\<close> receive the raw
  list; \<open>get_machines\<close> and \<open>get_sizes\<close> receive the bound listing method of the
  superclass (\<open>super(EshDriver, self).list_machines\<close>, not its result) and call it.
\<close>

definition get_instances :: "(lc_object \<Rightarrow> esh_instance) \<Rightarrow> lc_object list \<Rightarrow> esh_instance list"
  where "get_instances cls nodes = map cls nodes"

definition get_volumes :: "(lc_object \<Rightarrow> esh_volume) \<Rightarrow> lc_object list \<Rightarrow> esh_volume list"
  where "get_volumes cls volumes = map cls volumes"

definition get_machines ::
  "(lc_object \<Rightarrow> esh_machine) \<Rightarrow> lc_object list action \<Rightarrow> esh_machine list action" where
  "get_machines cls lc_list_images_method w =
     (case lc_list_images_method w of
        (Inl e, w') \<Rightarrow> (Inl e, w')
      | (Inr images, w') \<Rightarrow> (Inr (map cls images), w'))"

definition get_sizes ::
  "(lc_object \<Rightarrow> esh_size) \<Rightarrow> lc_object list action \<Rightarrow> esh_size list action" where
  "get_sizes cls lc_list_sizes_method w =
     (case lc_list_sizes_method w of
        (Inl e, w') \<Rightarrow> (Inl e, w')
      | (Inr sizes, w') \<Rightarrow> (Inr (map cls sizes), w'))"

definition EshDriver_list_instances ::
  "driver \<Rightarrow> pyval list \<Rightarrow> kwargs \<Rightarrow> esh_instance list action" where
  "EshDriver_list_instances self args kwargs w =
     (case LibcloudDriver_list_instances self [] Map.empty w of
        (Inl e, w') \<Rightarrow> (Inl e, w')
      | (Inr nodes, w') \<Rightarrow> (Inr (get_instances (instanceCls (provider self)) nodes), w'))"

definition EshDriver_list_machines ::
  "driver \<Rightarrow> pyval list \<Rightarrow> kwargs \<Rightarrow> esh_machine list action" where
  "EshDriver_list_machines self args kwargs w =
     get_machines (machineCls (provider self))
       (LibcloudDriver_list_machines self [] Map.empty) w"

definition EshDriver_list_sizes ::
  "driver \<Rightarrow> pyval list \<Rightarrow> kwargs \<Rightarrow> esh_size list action" where
  "EshDriver_list_sizes self args kwargs w =
     get_sizes (sizeCls (provider self))
       (LibcloudDriver_list_sizes self [] Map.empty) w"

definition EshDriver_list_volumes ::
  "driver \<Rightarrow> pyval list \<Rightarrow> kwargs \<Rightarrow> esh_volume list action" where
  "EshDriver_list_volumes self args kwargs w =
     (case LibcloudDriver_list_volumes self args kwargs w of
        (Inl e, w') \<Rightarrow> (Inl e, w')
      | (Inr volumes, w') \<Rightarrow> (Inr (get_volumes (volumeCls (provider self)) volumes), w'))"

section \<open>\<open>OSDriver\<close>: the deploy family\<close>

text \<open>\<open>str()\<close> of a value, as the \<open>%s\<close> conversions of \<open>deploy_init_to\<close> apply it.\<close>

definition digit_char :: "nat \<Rightarrow> char" where
  "digit_char d = ''0123456789'' ! d"

function decimal :: "nat \<Rightarrow> string" where
  "decimal n = (if n div 10 = 0 then [digit_char n]
                else decimal (n div 10) @ [digit_char (n mod 10)])"
  by pat_completeness auto
termination
  by (relation "measure (\<lambda>n. n)") auto

declare decimal.simps [simp del]

definition str_int :: "int \<Rightarrow> string" where
  "str_int i = (if 0 \<le> i then decimal (nat i) else CHR ''-'' # decimal (nat (- i)))"

definition py_str :: "world \<Rightarrow> pyval \<Rightarrow> string" where
  "py_str w v =
     (case v of
        VPrim PNone \<Rightarrow> ''None''
      | VPrim (PBool b) \<Rightarrow> (if b then ''True'' else ''False'')
      | VPrim (PInt i) \<Rightarrow> str_int i
      | VPrim (PStr s) \<Rightarrow> s
      | _ \<Rightarrow> str_of_object w v)"

text \<open>Attribute reads: \<open>user.username\<close> on a plain string, and \<open>instance.id\<close> or
  \<open>instance._node\<close> on an argument that has no such attribute, raise
  \<open>AttributeError\<close>.\<close>

definition getattr_username :: "identity_user \<Rightarrow> error + string" where
  "getattr_username u =
     (case u of
        UserObj name \<Rightarrow> Inr name
      | UserStr _ \<Rightarrow> Inl (AttributeError ''username''))"

definition getattr_id :: "pyval \<Rightarrow> error + string" where
  "getattr_id v =
     (case v of
        VInstance i \<Rightarrow> Inr (inst_id i)
      | VNode n \<Rightarrow> Inr (lc_id n)
      | _ \<Rightarrow> Inl (AttributeError ''id''))"

definition getattr_node :: "pyval \<Rightarrow> error + lc_object" where
  "getattr_node v =
     (case v of
        VInstance i \<Rightarrow> Inr (inst_node i)
      | _ \<Rightarrow> Inl (AttributeError ''_node''))"

definition private_key :: string where
  "private_key = ''/opt/dev/atmosphere/extras/ssh/id_rsa''"

definition atmo_init :: string where
  "atmo_init = ''/usr/sbin/atmo_init_full.py''"

definition server_atmo_init :: string where
  "server_atmo_init = ''/init_files/30/atmo-init-full.py''"

definition deploy_log :: string where
  "deploy_log = ''/var/log/atmo/deploy.log''"

text \<open>The five steps of \<open>deploy_init_to\<close>.\<close>

definition script_init :: deployment where
  \<open>script_init = ScriptDeployment
     (''if [ ! -d "/var/log/atmo" ];then'' @ [CHR 0x0A]
      @ ''mkdir -p /var/log/atmo'' @ [CHR 0x0A]
      @ ''fi'' @ [CHR 0x0A]
      @ ''if [ ! -f "/var/log/atmo/deploy.log" ]; then'' @ [CHR 0x0A]
      @ ''touch /var/log/atmo/deploy.log'' @ [CHR 0x0A]
      @ ''fi'')
     ''deploy_init_log.sh''\<close>

definition script_deps :: deployment where
  "script_deps = LoggedScriptDeployment
     (''apt-get update;apt-get install -y emacs vim wget language-pack-en''
      @ '' make gcc g++ gettext texinfo autoconf automake'')
     ''deploy_aptget_update.sh'' deploy_log"

definition script_wget :: "settings \<Rightarrow> deployment" where
  "script_wget cfg = LoggedScriptDeployment
     (''wget -O '' @ atmo_init @ '' '' @ SERVER_URL cfg @ server_atmo_init)
     ''deploy_wget_atmoinit.sh'' deploy_log"

definition script_chmod :: deployment where
  "script_chmod = LoggedScriptDeployment
     (''chmod a+x '' @ atmo_init) ''deploy_chmod_atmoinit.sh'' deploy_log"

definition awesome_atmo_call :: "settings \<Rightarrow> string \<Rightarrow> string \<Rightarrow> string" where
  "awesome_atmo_call cfg username instance_token =
     atmo_init @ '' --service_type='' @ ''instance_service_v1''
     @ '' --service_url='' @ INSTANCE_SERVICE_URL cfg
     @ '' --server='' @ SERVER_URL cfg
     @ '' --user_id='' @ username
     @ '' --token='' @ instance_token
     @ '' --vnc_license='' @ ATMOSPHERE_VNC_LICENSE cfg"

definition script_atmo_init :: "settings \<Rightarrow> string \<Rightarrow> string \<Rightarrow> deployment" where
  "script_atmo_init cfg username instance_token = LoggedScriptDeployment
     (awesome_atmo_call cfg username instance_token) ''deploy_call_atmoinit.sh'' deploy_log"

definition msd :: "settings \<Rightarrow> string \<Rightarrow> string \<Rightarrow> deployment" where
  "msd cfg username instance_token = MultiStepDeployment
     [script_init, script_deps, script_wget cfg, script_chmod,
      script_atmo_init cfg username instance_token]"

text \<open>\<open>OSDriver.deploy_to\<close>. The two conditional \<open>kwargs.update\<close> statements are
  \<open>deploy_to_defaults\<close>.\<close>

definition deploy_to_defaults :: "kwargs \<Rightarrow> kwargs" where
  "deploy_to_defaults kwargs =
     (let kwargs1 = (if \<not> truthy (kwargs_get kwargs ''ssh_key'' (VPrim PNone))
                     then kwargs(''ssh_key'' \<mapsto> VPrim (PStr private_key))
                     else kwargs);
          kwargs2 = (if \<not> truthy (kwargs_get kwargs1 ''timeout'' (VPrim PNone))
                     then kwargs1(''timeout'' \<mapsto> VPrim (PInt 120))
                     else kwargs1)
      in kwargs2)"

definition deploy_to :: "driver \<Rightarrow> pyval list \<Rightarrow> kwargs \<Rightarrow> bool action" where
  "deploy_to self args kwargs w =
     (case args of
        [] \<Rightarrow> (Inl (MissingArgsException ''Missing instance argument.''), w)
      | inst # _ \<Rightarrow>
          if \<not> truthy (kwargs_get kwargs ''deploy'' (VPrim PNone))
          then (Inl (MissingArgsException ''Missing deploy argument.''), w)
          else
            let kwargs2 = deploy_to_defaults kwargs in
            (case getattr_username (user (identity self)) of
               Inl e \<Rightarrow> (Inl e, w)
             | Inr username \<Rightarrow>
                 let w1 = logger (LogInfo ''Attempting deployment to node'') w in
                 (case getattr_node inst of
                    Inl e \<Rightarrow> (Inl e, w1)
                  | Inr node \<Rightarrow>
                      let w2 = invoke ''ex_deploy_to_node'' (VNode node # args) kwargs2 w1 in
                      (case ex_deploy_to_node (connection self) (VNode node # args) kwargs2 of
                         Inl e \<Rightarrow> (Inl e, w2)
                       | Inr _ \<Rightarrow> (Inr True, w2)))))"

text \<open>\<open>OSDriver.deploy_init_to\<close>. The username is taken from \<open>identity.user\<close> itself
  when that is a string (\<open>isinstance(self.identity.user, basestring)\<close>) and from its
  \<open>username\<close> field otherwise. \<open>deploy_init_to_call\<close> is the body up to its last line:
  it yields the positional and keyword arguments of the final
  \<open>self.deploy_to(instance, *args, **kwargs)\<close>, which \<open>deploy_init_to\<close> then makes.\<close>

definition deploy_init_to_call ::
  "settings \<Rightarrow> driver \<Rightarrow> pyval list \<Rightarrow> kwargs \<Rightarrow> world \<Rightarrow> error + (pyval list \<times> kwargs)" where
  "deploy_init_to_call cfg self args kwargs w =
     (case args of
        [] \<Rightarrow> Inl (MissingArgsException ''Missing instance argument.'')
      | inst # _ \<Rightarrow>
          let username = (case user (identity self) of
                            UserStr s \<Rightarrow> s
                          | UserObj name \<Rightarrow> name);
              instance_token = kwargs_get kwargs ''token'' (VPrim (PStr []))
          in
          (case (if \<not> truthy instance_token then getattr_id inst
                 else Inr (py_str w instance_token)) of
             Inl e \<Rightarrow> Inl e
           | Inr token \<Rightarrow>
               let kwargs1 = kwargs(''deploy'' \<mapsto> VDeployment (msd cfg username token));
                   kwargs2 = kwargs1(''ssh_key'' \<mapsto> VPrim (PStr private_key));
                   kwargs3 = kwargs2(''timeout'' \<mapsto> VPrim (PInt 120))
               in Inr (inst # args, kwargs3)))"

definition deploy_init_to :: "settings \<Rightarrow> driver \<Rightarrow> pyval list \<Rightarrow> kwargs \<Rightarrow> bool action" where
  "deploy_init_to cfg self args kwargs w =
     (case deploy_init_to_call cfg self args kwargs w of
        Inl e \<Rightarrow> (Inl e, w)
      | Inr (args', kwargs') \<Rightarrow> deploy_to self args' kwargs' w)"

text \<open>\<open>LibcloudDriver.deploy_instance\<close>: the Connection's create+deploy primitive, reached
  as \<open>self._connection.deploy_node\<close>.\<close>

definition LibcloudDriver_deploy_instance ::
  "driver \<Rightarrow> pyval list \<Rightarrow> kwargs \<Rightarrow> pyval action" where
  "LibcloudDriver_deploy_instance self args kwargs w =
     (deploy_node (connection self) args kwargs, invoke ''deploy_node'' args kwargs w)"

text \<open>\<open>self.deploy_node\<close>, as \<open>OSDriver.deploy_instance\<close> writes it: an attribute of the
  driver object, not of its Connection. No class of \<open>driver.py\<close> defines a method or an
  attribute of that name, so the lookup raises \<open>AttributeError\<close> and nothing is
  called.\<close>

definition self_deploy_node :: "driver \<Rightarrow> pyval list \<Rightarrow> kwargs \<Rightarrow> pyval action" where
  "self_deploy_node self args kwargs w = (Inl (AttributeError ''deploy_node''), w)"

text \<open>\<open>OSDriver.deploy_instance\<close>. Only a \<open>DeploymentError\<close> is caught; every other
  error leaves the \<open>try\<close> statement as it is.\<close>

definition OSDriver_deploy_instance :: "driver \<Rightarrow> pyval list \<Rightarrow> kwargs \<Rightarrow> bool action" where
  "OSDriver_deploy_instance self args kwargs w =
     (if \<not> truthy (kwargs_get kwargs ''deploy'' (VPrim PNone))
      then (Inl (MissingArgsException ''Missing deploy argument.''), w)
      else
        (case getattr_username (user (identity self)) of
           Inl e \<Rightarrow> (Inl e, w)
         | Inr username \<Rightarrow>
             let kwargs1 = kwargs(''ssh_key'' \<mapsto> VPrim (PStr private_key));
                 kwargs2 = kwargs1(''timeout'' \<mapsto> VPrim (PInt 120))
             in
             (case self_deploy_node self args kwargs2 w of
                (Inl (DeploymentError v), w1) \<Rightarrow>
                  (Inr False,
                   logger (LogError v) (logger (LogExcInfo (DeploymentError v)) w1))
              | (Inl e, w1) \<Rightarrow> (Inl e, w1)
              | (Inr _, w1) \<Rightarrow> (Inr True, w1))))"

section \<open>\<open>AWSDriver.filter_machines\<close>\<close>

text \<open>\<open>word in s\<close> on strings: \<open>word\<close> occurs in \<open>s\<close> as a contiguous substring.\<close>

fun str_contains :: "string \<Rightarrow> string \<Rightarrow> bool" where
  "str_contains word [] = (word = [])"
| "str_contains word (c # cs) = (prefix word (c # cs) \<or> str_contains word cs)"

text \<open>List objects live in a store, so that the in-place \<open>extend\<close> is visible to
  whoever else holds the list. The default value of the parameter \<open>black_list\<close> is one
  list object, created empty when the \<open>def\<close> statement runs.\<close>

type_synonym heap = "nat \<Rightarrow> string list"

definition default_black_list :: nat where
  "default_black_list = 0"

definition initial_heap :: heap where
  "initial_heap = (\<lambda>_. [])"

text \<open>
  Modelled from the spec: \<open>APIFilterMixin.filter_machines\<close> (\<open>rtwo.mixins.driver\<close>), the
  inherited filter that \<open>super(AWSDriver, self).filter_machines\<close> reaches, is not part of
  \<open>driver.py\<close>. The spec: "exclude machines whose metadata matches an extended
  block-list"; the docstring: "Keep the machine if it does NOT match any word in the
  black_list". Which metadata a word is matched against is the parameter \<open>matches\<close>.
\<close>

definition APIFilterMixin_filter_machines ::
  "(esh_machine \<Rightarrow> string \<Rightarrow> bool) \<Rightarrow> esh_machine list \<Rightarrow> string list \<Rightarrow> esh_machine list"
  where
  "APIFilterMixin_filter_machines matches machines black_list =
     filter (\<lambda>m. \<not> list_ex (matches m) black_list) machines"

text \<open>The local helper \<open>_filter_machines(ms, cond)\<close>: a list comprehension, left to
  right, that stops at the first machine on which \<open>cond\<close> raises.\<close>

fun local_filter_machines ::
  "esh_machine list \<Rightarrow> (esh_machine \<Rightarrow> error + bool) \<Rightarrow> error + esh_machine list" where
  "local_filter_machines [] cond = Inr []"
| "local_filter_machines (m # ms) cond =
     (case cond m of
        Inl e \<Rightarrow> Inl e
      | Inr b \<Rightarrow>
          (case local_filter_machines ms cond of
             Inl e \<Rightarrow> Inl e
           | Inr rest \<Rightarrow> Inr (if b then m # rest else rest)))"

definition alias_cond :: "esh_machine \<Rightarrow> error + bool" where
  "alias_cond m = Inr (list_ex (\<lambda>word. str_contains word (machine_alias m)) [''aki-'', ''ari-''])"

definition ownerid_cond :: "esh_machine \<Rightarrow> error + bool" where
  "ownerid_cond m =
     (case getitem (lc_extra (machine_image m)) ''ownerid'' of
        Inl e \<Rightarrow> Inl e
      | Inr v \<Rightarrow> Inr (list_ex (\<lambda>word. PStr word = v) [''099720109477'']))"

definition owneralias_cond :: "esh_machine \<Rightarrow> error + bool" where
  "owneralias_cond m =
     (case getitem (lc_extra (machine_image m)) ''owneralias'' of
        Inl e \<Rightarrow> Inl e
      | Inr v \<Rightarrow> Inr (list_ex (\<lambda>word. PStr word = v) [''amazon'', ''aws-marketplace'']))"

definition fixed_terms :: "string list" where
  "fixed_terms = [''bitnami'', ''kernel'', ''microsoft'', ''Windows'']"

text \<open>\<open>AWSDriver.filter_machines(machines, black_list=[])\<close>: \<open>black_list\<close> is a reference
  to a list object, \<open>None\<close> when the caller omits it.\<close>

definition AWSDriver_filter_machines ::
  "(esh_machine \<Rightarrow> string \<Rightarrow> bool) \<Rightarrow> esh_machine list \<Rightarrow> nat option \<Rightarrow> heap
     \<Rightarrow> (error + esh_machine list) \<times> heap" where
  "AWSDriver_filter_machines matches machines black_list_arg h =
     (let black_list = (case black_list_arg of
                          None \<Rightarrow> default_black_list
                        | Some r \<Rightarrow> r);
          h1 = h(black_list := h black_list @ fixed_terms);
          filtered_machines = APIFilterMixin_filter_machines matches machines (h1 black_list)
      in
      (case local_filter_machines filtered_machines alias_cond of
         Inl e \<Rightarrow> (Inl e, h1)
       | Inr filtered_machines \<Rightarrow>
      (case local_filter_machines filtered_machines ownerid_cond of
         Inl e \<Rightarrow> (Inl e, h1)
       | Inr filtered_ubuntu \<Rightarrow>
      (case local_filter_machines filtered_machines owneralias_cond of
         Inl e \<Rightarrow> (Inl e, h1)
       | Inr filtered_amazon \<Rightarrow> (Inr (filtered_ubuntu @ filtered_amazon), h1)))))"

section \<open>Reading off what a call passes on\<close>


definition passed_kwarg :: "error + (pyval list \<times> kwargs) \<Rightarrow> string \<Rightarrow> pyval option" where
  "passed_kwarg r key = (case r of Inl _ \<Rightarrow> None | Inr (a, k) \<Rightarrow> k key)"

text \<open>The three tests of \<open>AWSDriver.filter_machines\<close> in the spec's words: the alias
  contains "aki-" or "ari-"; the image is owned by Ubuntu's owner id; the image is
  owned by the alias "amazon" or "aws-marketplace". \<open>has_owner_keys\<close>: the image's
  \<open>extra\<close> has both entries the last two read.\<close>

definition has_kernel_alias :: "esh_machine \<Rightarrow> bool" where
  "has_kernel_alias m =
     (str_contains ''aki-'' (machine_alias m) \<or> str_contains ''ari-'' (machine_alias m))"

definition has_owner_id :: "esh_machine \<Rightarrow> bool" where
  "has_owner_id m = (lc_extra (machine_image m) ''ownerid'' = Some (PStr ''099720109477''))"

definition has_owner_alias :: "esh_machine \<Rightarrow> bool" where
  "has_owner_alias m =
     (lc_extra (machine_image m) ''owneralias''
        \<in> {Some (PStr ''amazon''), Some (PStr ''aws-marketplace'')})"

definition has_owner_keys :: "esh_machine \<Rightarrow> bool" where
  "has_owner_keys m =
     (lc_extra (machine_image m) ''ownerid'' \<noteq> None
      \<and> lc_extra (machine_image m) ''owneralias'' \<noteq> None)"

section \<open>Stub objects\<close>

text \<open>A Connection whose primitives all succeed, Providers and Identities of each
  variant, machines and a deployment plan: the concrete inputs on which the properties
  below are instantiated.\<close>

definition stub_connection :: lc_connection where
  "stub_connection =
     \<lparr>list_nodes = Inr [], list_images = Inr [], list_sizes = Inr [],
      list_volumes = (\<lambda>_ _. Inr []),
      ex_deploy_to_node = (\<lambda>_ _. Inr (VPrim PNone)),
      deploy_node = (\<lambda>_ _. Inr (VPrim PNone)),
      ex_force_service_region = None, service_region = None\<rparr>"

definition stub_provider :: "provider_cls \<Rightarrow> lc_connection \<Rightarrow> esh_provider" where
  "stub_provider cls conn =
     \<lparr>provider_class = cls,
      get_driver = (\<lambda>_. Inr conn),
      instanceCls = (\<lambda>n. \<lparr>inst_id = lc_id n, inst_node = n, inst_extra = lc_extra n\<rparr>),
      machineCls = (\<lambda>n. \<lparr>machine_alias = lc_id n, machine_image = n\<rparr>),
      sizeCls = (\<lambda>n. \<lparr>size_raw = n\<rparr>),
      volumeCls = (\<lambda>n. \<lparr>volume_raw = n\<rparr>)\<rparr>"

definition failing_provider :: "provider_cls \<Rightarrow> esh_provider" where
  "failing_provider cls =
     (stub_provider cls stub_connection)
       \<lparr>get_driver := (\<lambda>_. Inl (ProviderError ''invalid credentials''))\<rparr>"

definition stub_identity :: "identity_cls \<Rightarrow> identity_user \<Rightarrow> esh_identity" where
  "stub_identity cls u = \<lparr>identity_class = cls, user = u\<rparr>"

definition stub_driver :: "identity_user \<Rightarrow> lc_connection \<Rightarrow> driver" where
  "stub_driver u conn =
     \<lparr>identity = stub_identity OSIdentity u,
      provider = stub_provider OSProvider conn,
      connection = conn\<rparr>"

definition stub_settings :: settings where
  "stub_settings =
     \<lparr>SERVER_URL = ''https://atmo.example.org'',
      INSTANCE_SERVICE_URL = ''https://atmo.example.org/api/v1/instancequery/'',
      ATMOSPHERE_VNC_LICENSE = ''LICENSE'',
      OPENSTACK_DEFAULT_REGION = ''RegionOne''\<rparr>"

definition stub_node :: lc_object where
  "stub_node = \<lparr>lc_id = ''node-1'', lc_extra = Map.empty\<rparr>"

definition stub_instance :: esh_instance where
  "stub_instance = \<lparr>inst_id = ''node-1'', inst_node = stub_node, inst_extra = Map.empty\<rparr>"

definition stub_plan :: deployment where
  "stub_plan = MultiStepDeployment [ScriptDeployment ''true'' ''noop.sh'']"

definition world0 :: world where
  "world0 = \<lparr>calls = [], logged = [], str_of_object = (\<lambda>_. ''<object>'')\<rparr>"

text \<open>The four machines of the spec's example. What the example leaves open is filled
  in: A has no owner alias, B has an owner id other than Ubuntu's, and D carries
  Ubuntu's owner id, so that only the block-list can exclude it.\<close>

definition machine_A :: esh_machine where
  "machine_A =
     \<lparr>machine_alias = ''aki-1'',
      machine_image = \<lparr>lc_id = ''A'', lc_extra = [''ownerid'' \<mapsto> PStr ''099720109477'',
                                                  ''owneralias'' \<mapsto> PNone]\<rparr>\<rparr>"

definition machine_B :: esh_machine where
  "machine_B =
     \<lparr>machine_alias = ''ari-2'',
      machine_image = \<lparr>lc_id = ''B'', lc_extra = [''ownerid'' \<mapsto> PStr ''137112412989'',
                                                  ''owneralias'' \<mapsto> PStr ''amazon'']\<rparr>\<rparr>"

definition machine_C :: esh_machine where
  "machine_C =
     \<lparr>machine_alias = ''m1'',
      machine_image = \<lparr>lc_id = ''C'', lc_extra = [''ownerid'' \<mapsto> PStr ''999'',
                                                  ''owneralias'' \<mapsto> PNone]\<rparr>\<rparr>"

definition machine_D :: esh_machine where
  "machine_D =
     \<lparr>machine_alias = ''aki-x'',
      machine_image = \<lparr>lc_id = ''D'', lc_extra = [''ownerid'' \<mapsto> PStr ''099720109477'',
                                                  ''owneralias'' \<mapsto> PStr ''bitnami'']\<rparr>\<rparr>"

text \<open>A match relation for the inherited filter: the word occurs in the image's owner
  alias.\<close>

definition stub_matches :: "esh_machine \<Rightarrow> string \<Rightarrow> bool" where
  "stub_matches m word =
     (case lc_extra (machine_image m) ''owneralias'' of
        Some (PStr s) \<Rightarrow> str_contains word s
      | _ \<Rightarrow> False)"

section \<open>Properties\<close>

text \<open>
  C4. For every instance whose \<open>extra\<close> dictionary carries the three entries the
  function reads (status, task, power), \<open>_is_active_instance\<close> returns true exactly when
  either status is "active" and task is neither "deleting" nor "suspending", or status
  is "build" or "resize" and task is not "deleting"; every other combination is false,
  in particular every instance with status "suspended".
\<close>

theorem is_active_instance_iff:
  assumes "inst_extra i ''status'' = Some status"
    and "inst_extra i ''task'' = Some task"
    and "inst_extra i ''power'' = Some power_state"
  shows "is_active_instance i =
           Inr ((status = PStr ''active''
                   \<and> task \<noteq> PStr ''deleting'' \<and> task \<noteq> PStr ''suspending'')
                \<or> ((status = PStr ''build'' \<or> status = PStr ''resize'')
                   \<and> task \<noteq> PStr ''deleting''))
         \<and> (status = PStr ''suspended'' \<longrightarrow> is_active_instance i = Inr False)"
  using assms by (auto simp: is_active_instance_def getitem_def)

theorem is_active_instance_iff_witness:
  "is_active_instance
      \<lparr>inst_id = ''i-1'', inst_node = \<lparr>lc_id = ''i-1'', lc_extra = Map.empty\<rparr>,
       inst_extra = [''status'' \<mapsto> PStr ''build'', ''task'' \<mapsto> PStr ''spawning'',
                     ''power'' \<mapsto> PInt 0]\<rparr> = Inr True
   \<and> is_active_instance
      \<lparr>inst_id = ''i-2'', inst_node = \<lparr>lc_id = ''i-2'', lc_extra = Map.empty\<rparr>,
       inst_extra = [''status'' \<mapsto> PStr ''suspended'', ''task'' \<mapsto> PNone,
                     ''power'' \<mapsto> PInt 4]\<rparr> = Inr False"
  using is_active_instance_iff
          [of "\<lparr>inst_id = ''i-1'', inst_node = \<lparr>lc_id = ''i-1'', lc_extra = Map.empty\<rparr>,
                inst_extra = [''status'' \<mapsto> PStr ''build'', ''task'' \<mapsto> PStr ''spawning'',
                              ''power'' \<mapsto> PInt 0]\<rparr>"
              "PStr ''build''" "PStr ''spawning''" "PInt 0"]
        is_active_instance_iff
          [of "\<lparr>inst_id = ''i-2'', inst_node = \<lparr>lc_id = ''i-2'', lc_extra = Map.empty\<rparr>,
                inst_extra = [''status'' \<mapsto> PStr ''suspended'', ''task'' \<mapsto> PNone,
                              ''power'' \<mapsto> PInt 4]\<rparr>"
              "PStr ''suspended''" "PNone" "PInt 4"]
  by simp

text \<open>
  C1. The Generic Driver's \<open>list_instances\<close> and \<open>list_volumes\<close> return exactly what the
  Connection's \<open>list_nodes\<close> and \<open>list_volumes\<close> return, a list or the error raised; and
  each read operation of the Capability-Converting Driver returns that list with the
  Provider's conversion function for the object kind applied to each element, in the
  same order and number (and the same error when the primitive raises).
\<close>

theorem list_operations_convert:
  "fst (LibcloudDriver_list_instances self args kwargs w) = list_nodes (connection self)
   \<and> fst (LibcloudDriver_list_volumes self args kwargs w)
       = list_volumes (connection self) args kwargs
   \<and> fst (EshDriver_list_instances self args kwargs w)
       = map_sum id (map (instanceCls (provider self))) (list_nodes (connection self))
   \<and> fst (EshDriver_list_machines self args kwargs w)
       = map_sum id (map (machineCls (provider self))) (list_images (connection self))
   \<and> fst (EshDriver_list_sizes self args kwargs w)
       = map_sum id (map (sizeCls (provider self))) (list_sizes (connection self))
   \<and> fst (EshDriver_list_volumes self args kwargs w)
       = map_sum id (map (volumeCls (provider self)))
           (list_volumes (connection self) args kwargs)"
  by (simp add: LibcloudDriver_list_instances_def LibcloudDriver_list_volumes_def
      LibcloudDriver_list_machines_def LibcloudDriver_list_sizes_def
      EshDriver_list_instances_def EshDriver_list_machines_def EshDriver_list_sizes_def
      EshDriver_list_volumes_def get_instances_def get_machines_def get_sizes_def
      get_volumes_def split: sum.splits)

text \<open>
  C2. \<open>OSDriver.deploy_instance\<close> with a deployment plan supplied never reaches the
  create+deploy primitive: it calls \<open>self.deploy_node\<close>, which the driver does not
  have, and the \<open>AttributeError\<close> is not a \<open>DeploymentError\<close>, so it is not caught.
  With a user object as the identity's user the call raises that error, with nothing
  invoked on the Connection and nothing logged; with a plain string it raises already
  on \<open>self.identity.user.username\<close>. The sibling \<open>LibcloudDriver.deploy_instance\<close>
  does reach the primitive, as \<open>self._connection.deploy_node\<close>.
\<close>

theorem deploy_instance_never_reaches_primitive:
  "OSDriver_deploy_instance (self\<lparr>identity := (identity self)\<lparr>user := UserObj name\<rparr>\<rparr>)
       args (kwargs(''deploy'' \<mapsto> VDeployment plan)) w
     = (Inl (AttributeError ''deploy_node''), w)
   \<and> OSDriver_deploy_instance (self\<lparr>identity := (identity self)\<lparr>user := UserStr s\<rparr>\<rparr>)
       args (kwargs(''deploy'' \<mapsto> VDeployment plan)) w
     = (Inl (AttributeError ''username''), w)
   \<and> LibcloudDriver_deploy_instance self args kwargs w
     = (deploy_node (connection self) args kwargs,
        w\<lparr>calls := calls w @ [Call ''deploy_node'' args kwargs]\<rparr>)"
  by (simp add: OSDriver_deploy_instance_def LibcloudDriver_deploy_instance_def
        self_deploy_node_def getattr_username_def kwargs_get_def invoke_def Let_def)

text \<open>Construction: the two ways it fails.\<close>

lemma new_driver_missing:
  "p = None \<or> i = None \<Longrightarrow>
     new_driver cls cfg p i
       = Inl (MissingArgsException
                ''LibcloudDriver is Missing Required Identity and/or Provider.'')"
  by (cases cls; cases p; cases i)
     (auto simp: LibcloudDriver_init_def EshDriver_init_def OSDriver_init_def)

lemma new_driver_mismatch:
  assumes "cls \<in> {OSDriver, AWSDriver, EucaDriver}"
    and "Some (provider_class p) \<noteq> providerCls cls
         \<or> Some (identity_class i) \<noteq> identityCls cls"
  shows "new_driver cls cfg (Some p) (Some i)
           = (case get_driver p i of
                Inl e \<Rightarrow> Inl e
              | Inr c \<Rightarrow> Inl (ServiceException ''Wrong Provider or Identity''))"
  using assms
  by (cases cls)
     (auto simp: LibcloudDriver_init_def EshDriver_init_def OSDriver_init_def isinstance_def
           split: sum.splits)

text \<open>
  C8 (as amended). For every driver class, construction with Provider \<open>None\<close> or
  Identity \<open>None\<close> raises the missing-arguments error. Construction of a specialized
  driver (OpenStack, AWS, Eucalyptus) whose Provider or Identity is not of the variant
  the class is bound to opens the Connection first: when the Provider's \<open>get_driver\<close>
  returns, the wrong-provider-or-identity error is raised; when \<open>get_driver\<close> raises,
  that error is raised instead. In each of these cases the result is an error: no
  driver object is returned.
\<close>

theorem construction_fails:
  "(p = None \<or> i = None \<longrightarrow>
      new_driver cls cfg p i
        = Inl (MissingArgsException
                 ''LibcloudDriver is Missing Required Identity and/or Provider.''))
   \<and> (cls \<in> {OSDriver, AWSDriver, EucaDriver} \<and> p = Some pr \<and> i = Some idn
        \<and> (Some (provider_class pr) \<noteq> providerCls cls
             \<or> Some (identity_class idn) \<noteq> identityCls cls) \<longrightarrow>
        (\<forall>c. get_driver pr idn = Inr c \<longrightarrow>
              new_driver cls cfg p i = Inl (ServiceException ''Wrong Provider or Identity''))
        \<and> (\<forall>e. get_driver pr idn = Inl e \<longrightarrow> new_driver cls cfg p i = Inl e)
        \<and> (\<exists>e. new_driver cls cfg p i = Inl e))"
proof (intro conjI impI)
  assume "p = None \<or> i = None"
  then show "new_driver cls cfg p i
        = Inl (MissingArgsException
                 ''LibcloudDriver is Missing Required Identity and/or Provider.'')"
    by (rule new_driver_missing)
next
  assume h: "cls \<in> {OSDriver, AWSDriver, EucaDriver} \<and> p = Some pr \<and> i = Some idn
        \<and> (Some (provider_class pr) \<noteq> providerCls cls
             \<or> Some (identity_class idn) \<noteq> identityCls cls)"
  then have eq: "new_driver cls cfg p i
           = (case get_driver pr idn of
                Inl e \<Rightarrow> Inl e
              | Inr c \<Rightarrow> Inl (ServiceException ''Wrong Provider or Identity''))"
    using new_driver_mismatch [of cls pr idn cfg] by simp
  show "\<forall>c. get_driver pr idn = Inr c \<longrightarrow>
              new_driver cls cfg p i = Inl (ServiceException ''Wrong Provider or Identity'')"
    using eq by simp
  show "\<forall>e. get_driver pr idn = Inl e \<longrightarrow> new_driver cls cfg p i = Inl e"
    using eq by simp
  show "\<exists>e. new_driver cls cfg p i = Inl e"
    using eq by (cases "get_driver pr idn") simp_all
qed

theorem construction_fails_witness:
  "new_driver AWSDriver stub_settings None
       (Some (stub_identity AWSIdentity (UserObj ''alice'')))
     = Inl (MissingArgsException
              ''LibcloudDriver is Missing Required Identity and/or Provider.'')
   \<and> new_driver OSDriver stub_settings
       (Some (stub_provider OSProvider stub_connection))
       (Some (stub_identity AWSIdentity (UserObj ''alice'')))
     = Inl (ServiceException ''Wrong Provider or Identity'')"
  using construction_fails
          [of None "Some (stub_identity AWSIdentity (UserObj ''alice''))" AWSDriver stub_settings]
        construction_fails
          [of "Some (stub_provider OSProvider stub_connection)"
              "Some (stub_identity AWSIdentity (UserObj ''alice''))" OSDriver stub_settings
              "stub_provider OSProvider stub_connection"
              "stub_identity AWSIdentity (UserObj ''alice'')"]
  by (simp add: stub_provider_def stub_identity_def)

text \<open>C8 as first stated, with the type-mismatch error raised for every wrong-variant
  Provider or Identity, fails: an OpenStack driver constructed with an AWS identity,
  on a Provider whose \<open>get_driver\<close> raises, fails with the error of \<open>get_driver\<close>.\<close>

theorem construction_mismatch_counterexample:
  "new_driver OSDriver stub_settings
       (Some (failing_provider OSProvider))
       (Some (stub_identity AWSIdentity (UserObj ''alice'')))
     = Inl (ProviderError ''invalid credentials'')"
  by (simp add: OSDriver_init_def EshDriver_init_def LibcloudDriver_init_def
        failing_provider_def stub_provider_def)

text \<open>
  C9. \<open>AWSDriver.filter_machines\<close> extends the list it is given in place with the four
  fixed terms: after the call the caller's list object holds its old contents followed
  by "bitnami", "kernel", "microsoft", "Windows", and no other list has changed. A call
  that omits \<open>black_list\<close> extends the one default list object; two successive calls
  that omit it leave that object holding the fixed terms twice, and the second call
  filters as a call given a list that already holds the fixed terms does.
\<close>

theorem filter_machines_extends_black_list:
  "snd (AWSDriver_filter_machines matches machines (Some r) h) = h(r := h r @ fixed_terms)
   \<and> snd (AWSDriver_filter_machines matches machines (Some r) h) r \<noteq> h r
   \<and> snd (AWSDriver_filter_machines matches machines None h)
       = h(default_black_list := h default_black_list @ fixed_terms)
   \<and> snd (AWSDriver_filter_machines matches machines' None
            (snd (AWSDriver_filter_machines matches machines None initial_heap)))
         default_black_list
       = fixed_terms @ fixed_terms
   \<and> fst (AWSDriver_filter_machines matches machines' None
            (snd (AWSDriver_filter_machines matches machines None initial_heap)))
       = fst (AWSDriver_filter_machines matches machines' (Some r)
                (initial_heap(r := fixed_terms)))"
proof -
  have upd: "snd (AWSDriver_filter_machines matches ms (Some x) h') = h'(x := h' x @ fixed_terms)"
    for ms x h'
    by (simp add: AWSDriver_filter_machines_def Let_def split: sum.splits)
  have dfl: "snd (AWSDriver_filter_machines matches ms None h')
               = h'(default_black_list := h' default_black_list @ fixed_terms)"
    for ms h'
    by (simp add: AWSDriver_filter_machines_def Let_def split: sum.splits)
  have ne: "h r @ fixed_terms \<noteq> h r"
    by (simp add: fixed_terms_def)
  have twice: "fst (AWSDriver_filter_machines matches machines' None
                  (initial_heap(default_black_list := fixed_terms)))
           = fst (AWSDriver_filter_machines matches machines' (Some r)
                (initial_heap(r := fixed_terms)))"
    by (simp add: AWSDriver_filter_machines_def Let_def split: sum.splits)
  show ?thesis
    using ne twice by (simp add: upd dfl initial_heap_def)
qed

text \<open>\<open>str()\<close> of an integer, on two values.\<close>

lemma str_int_examples: "str_int 120 = ''120'' \<and> str_int (- 7) = ''-7''"
  by code_simp

text \<open>The deploy family: what \<open>deploy_init_to\<close> passes on, and what \<open>deploy_to\<close> does
  with a user object and with a plain string.\<close>

lemma deploy_to_defaults_set:
  "truthy (kwargs_get k ''ssh_key'' (VPrim PNone)) \<Longrightarrow>
   truthy (kwargs_get k ''timeout'' (VPrim PNone)) \<Longrightarrow> deploy_to_defaults k = k"
  by (simp add: deploy_to_defaults_def)

lemma deploy_init_to_call_instance:
  "deploy_init_to_call cfg self (VInstance i # rest) kwargs w
     = Inr (VInstance i # VInstance i # rest,
            kwargs(''deploy'' \<mapsto> VDeployment (msd cfg
                       (case user (identity self) of UserStr s \<Rightarrow> s | UserObj name \<Rightarrow> name)
                       (if \<not> truthy (kwargs_get kwargs ''token'' (VPrim (PStr [])))
                        then inst_id i
                        else py_str w (kwargs_get kwargs ''token'' (VPrim (PStr []))))),
                   ''ssh_key'' \<mapsto> VPrim (PStr private_key),
                   ''timeout'' \<mapsto> VPrim (PInt 120)))"
  by (simp add: deploy_init_to_call_def getattr_id_def Let_def)

lemma deploy_to_user_object:
  assumes "truthy (kwargs_get kwargs ''deploy'' (VPrim PNone))"
    and "user (identity self) = UserObj name"
  shows "calls (snd (deploy_to self (VInstance i # rest) kwargs w))
           = calls w @ [Call ''ex_deploy_to_node'' (VNode (inst_node i) # VInstance i # rest)
                          (deploy_to_defaults kwargs)]"
    and "fst (deploy_to self (VInstance i # rest) kwargs w)
           = map_sum id (\<lambda>_. True)
               (ex_deploy_to_node (connection self) (VNode (inst_node i) # VInstance i # rest)
                  (deploy_to_defaults kwargs))"
  using assms
  by (auto simp: deploy_to_def getattr_username_def getattr_node_def invoke_def logger_def Let_def
           split: sum.splits)

lemma deploy_to_user_string:
  assumes "truthy (kwargs_get kwargs ''deploy'' (VPrim PNone))"
    and "user (identity self) = UserStr s"
  shows "deploy_to self (inst # rest) kwargs w = (Inl (AttributeError ''username''), w)"
  using assms by (simp add: deploy_to_def getattr_username_def Let_def)

text \<open>
  C5 (as amended). Every call of \<open>deploy_to\<close> or \<open>deploy_init_to\<close> without an instance
  argument, and every call of \<open>deploy_to\<close> or \<open>deploy_instance\<close> without a deployment
  plan, raises the missing-argument error with the world unchanged: no Connection
  primitive has been invoked. \<open>deploy_to\<close> with an instance and a plan, on an identity
  whose user is a user object, invokes the node-targeted deployment primitive once and,
  when the primitive returns, returns \<open>True\<close>. (\<open>deploy_instance\<close> makes no test for an
  instance argument.)
\<close>

theorem deploy_family_missing_arguments:
  "deploy_to self [] kwargs w = (Inl (MissingArgsException ''Missing instance argument.''), w)
   \<and> deploy_init_to cfg self [] kwargs w
       = (Inl (MissingArgsException ''Missing instance argument.''), w)
   \<and> (\<not> truthy (kwargs_get kwargs ''deploy'' (VPrim PNone)) \<longrightarrow>
        (\<exists>msg. deploy_to self args kwargs w = (Inl (MissingArgsException msg), w))
        \<and> OSDriver_deploy_instance self args kwargs w
            = (Inl (MissingArgsException ''Missing deploy argument.''), w))
   \<and> (truthy (kwargs_get kwargs ''deploy'' (VPrim PNone))
        \<and> user (identity self) = UserObj name \<longrightarrow>
        calls (snd (deploy_to self (VInstance i # rest) kwargs w))
          = calls w @ [Call ''ex_deploy_to_node'' (VNode (inst_node i) # VInstance i # rest)
                         (deploy_to_defaults kwargs)]
        \<and> (\<forall>x. ex_deploy_to_node (connection self)
                   (VNode (inst_node i) # VInstance i # rest) (deploy_to_defaults kwargs)
                 = Inr x \<longrightarrow>
               fst (deploy_to self (VInstance i # rest) kwargs w) = Inr True))"
proof (intro conjI impI allI)
  show "deploy_to self [] kwargs w
          = (Inl (MissingArgsException ''Missing instance argument.''), w)"
    by (simp add: deploy_to_def)
  show "deploy_init_to cfg self [] kwargs w
          = (Inl (MissingArgsException ''Missing instance argument.''), w)"
    by (simp add: deploy_init_to_def deploy_init_to_call_def)
next
  assume "\<not> truthy (kwargs_get kwargs ''deploy'' (VPrim PNone))"
  then show "\<exists>msg. deploy_to self args kwargs w = (Inl (MissingArgsException msg), w)"
    by (cases args) (simp_all add: deploy_to_def)
next
  assume "\<not> truthy (kwargs_get kwargs ''deploy'' (VPrim PNone))"
  then show "OSDriver_deploy_instance self args kwargs w
            = (Inl (MissingArgsException ''Missing deploy argument.''), w)"
    by (simp add: OSDriver_deploy_instance_def)
next
  assume h: "truthy (kwargs_get kwargs ''deploy'' (VPrim PNone))
        \<and> user (identity self) = UserObj name"
  then show "calls (snd (deploy_to self (VInstance i # rest) kwargs w))
            = calls w @ [Call ''ex_deploy_to_node'' (VNode (inst_node i) # VInstance i # rest)
                           (deploy_to_defaults kwargs)]"
    using deploy_to_user_object(1) [of kwargs self name i rest w] by simp
next
  fix x
  assume h: "truthy (kwargs_get kwargs ''deploy'' (VPrim PNone))
        \<and> user (identity self) = UserObj name"
    and p: "ex_deploy_to_node (connection self)
              (VNode (inst_node i) # VInstance i # rest) (deploy_to_defaults kwargs) = Inr x"
  then show "fst (deploy_to self (VInstance i # rest) kwargs w) = Inr True"
    using deploy_to_user_object(2) [of kwargs self name i rest w] by simp
qed

theorem deploy_family_missing_arguments_witness:
  "OSDriver_deploy_instance (stub_driver (UserObj ''alice'') stub_connection)
       [VInstance stub_instance] Map.empty world0
     = (Inl (MissingArgsException ''Missing deploy argument.''), world0)
   \<and> fst (deploy_to (stub_driver (UserObj ''alice'') stub_connection)
            [VInstance stub_instance] [''deploy'' \<mapsto> VDeployment stub_plan] world0) = Inr True"
  using deploy_family_missing_arguments
          [of "stub_driver (UserObj ''alice'') stub_connection" Map.empty world0 stub_settings
              "[VInstance stub_instance]"]
        deploy_family_missing_arguments
          [of "stub_driver (UserObj ''alice'') stub_connection"
              "[''deploy'' \<mapsto> VDeployment stub_plan]" world0 stub_settings
              "[]" "''alice''" stub_instance "[]"]
  by (simp add: kwargs_get_def stub_driver_def stub_identity_def stub_connection_def)

text \<open>C5 as first stated, with \<open>deploy_instance\<close> among the calls that raise the
  missing-argument error when no instance argument is given, fails: called with a plan
  and no instance argument, \<open>deploy_instance\<close> passes its only test (for the plan) and
  goes on to \<open>self.deploy_node\<close>; the error it raises there is not the
  missing-argument error.\<close>

theorem deploy_instance_without_instance_counterexample:
  "OSDriver_deploy_instance (stub_driver (UserObj ''alice'') stub_connection) []
       [''deploy'' \<mapsto> VDeployment stub_plan] world0
     = (Inl (AttributeError ''deploy_node''), world0)"
  by (simp add: OSDriver_deploy_instance_def self_deploy_node_def kwargs_get_def
        stub_driver_def stub_identity_def getattr_username_def Let_def)

text \<open>
  C6 (as amended). \<open>deploy_init_to\<close> always passes the fixed SSH key path and the
  timeout 120 on to \<open>deploy_to\<close>, whatever the caller supplied under \<open>ssh_key\<close> and
  \<open>timeout\<close>; with a user object as the identity's user these are the values the
  Connection's deployment primitive receives.
\<close>

theorem deploy_init_to_forces_defaults:
  assumes "args = VInstance i # rest"
  shows "passed_kwarg (deploy_init_to_call cfg self args kwargs w) ''ssh_key''
           = Some (VPrim (PStr private_key))
       \<and> passed_kwarg (deploy_init_to_call cfg self args kwargs w) ''timeout''
           = Some (VPrim (PInt 120))
       \<and> (user (identity self) = UserObj name \<longrightarrow>
            (\<exists>a k. calls (snd (deploy_init_to cfg self args kwargs w))
                      = calls w @ [Call ''ex_deploy_to_node'' a k]
                  \<and> k ''ssh_key'' = Some (VPrim (PStr private_key))
                  \<and> k ''timeout'' = Some (VPrim (PInt 120))))"
proof (intro conjI impI)
  show "passed_kwarg (deploy_init_to_call cfg self args kwargs w) ''ssh_key''
           = Some (VPrim (PStr private_key))"
    using assms by (simp add: deploy_init_to_call_instance passed_kwarg_def)
  show "passed_kwarg (deploy_init_to_call cfg self args kwargs w) ''timeout''
           = Some (VPrim (PInt 120))"
    using assms by (simp add: deploy_init_to_call_instance passed_kwarg_def)
next
  assume u: "user (identity self) = UserObj name"
  let ?k = "kwargs(''deploy'' \<mapsto> VDeployment (msd cfg
                       (case user (identity self) of UserStr s \<Rightarrow> s | UserObj name \<Rightarrow> name)
                       (if \<not> truthy (kwargs_get kwargs ''token'' (VPrim (PStr [])))
                        then inst_id i
                        else py_str w (kwargs_get kwargs ''token'' (VPrim (PStr []))))),
                   ''ssh_key'' \<mapsto> VPrim (PStr private_key),
                   ''timeout'' \<mapsto> VPrim (PInt 120))"
  have t: "truthy (kwargs_get ?k ''deploy'' (VPrim PNone))"
    by (simp add: kwargs_get_def)
  have d: "deploy_to_defaults ?k = ?k"
    by (rule deploy_to_defaults_set) (simp_all add: kwargs_get_def private_key_def)
  have "deploy_init_to cfg self args kwargs w
          = deploy_to self (VInstance i # VInstance i # rest) ?k w"
    using assms by (simp add: deploy_init_to_def deploy_init_to_call_instance)
  then have "calls (snd (deploy_init_to cfg self args kwargs w))
               = calls w @ [Call ''ex_deploy_to_node''
                              (VNode (inst_node i) # VInstance i # VInstance i # rest) ?k]"
    using deploy_to_user_object(1) [OF t u, of i "VInstance i # rest" w] d by simp
  moreover have "?k ''ssh_key'' = Some (VPrim (PStr private_key))"
    and "?k ''timeout'' = Some (VPrim (PInt 120))" by simp_all
  ultimately show "\<exists>a k. calls (snd (deploy_init_to cfg self args kwargs w))
                      = calls w @ [Call ''ex_deploy_to_node'' a k]
                  \<and> k ''ssh_key'' = Some (VPrim (PStr private_key))
                  \<and> k ''timeout'' = Some (VPrim (PInt 120))"
    by blast
qed

theorem deploy_init_to_forces_defaults_witness:
  "passed_kwarg (deploy_init_to_call stub_settings (stub_driver (UserObj ''alice'') stub_connection)
       [VInstance stub_instance] [''timeout'' \<mapsto> VPrim (PInt 600)] world0) ''timeout''
     = Some (VPrim (PInt 120))"
  using deploy_init_to_forces_defaults
          [of "[VInstance stub_instance]" stub_instance "[]" stub_settings
              "stub_driver (UserObj ''alice'') stub_connection"
              "[''timeout'' \<mapsto> VPrim (PInt 600)]" world0 "''alice''"]
  by simp

text \<open>C6 as first stated, with the caller's \<open>ssh_key\<close> and \<open>timeout\<close> passed on
  unchanged, fails: both are replaced.\<close>

theorem deploy_init_to_override_counterexample:
  "passed_kwarg (deploy_init_to_call stub_settings (stub_driver (UserObj ''alice'') stub_connection)
       [VInstance stub_instance]
       [''ssh_key'' \<mapsto> VPrim (PStr ''/home/me/id_rsa''), ''timeout'' \<mapsto> VPrim (PInt 600)]
       world0) ''ssh_key''
     = Some (VPrim (PStr ''/opt/dev/atmosphere/extras/ssh/id_rsa''))
   \<and> passed_kwarg (deploy_init_to_call stub_settings (stub_driver (UserObj ''alice'') stub_connection)
       [VInstance stub_instance]
       [''ssh_key'' \<mapsto> VPrim (PStr ''/home/me/id_rsa''), ''timeout'' \<mapsto> VPrim (PInt 600)]
       world0) ''timeout''
     = Some (VPrim (PInt 120))"
  by (simp add: passed_kwarg_def deploy_init_to_call_def getattr_id_def kwargs_get_def Let_def
        private_key_def)

text \<open>
  C7. With an identity whose user is a plain string, \<open>deploy_init_to\<close> builds the same
  call as with a user object of that username (the same agent invocation step), but the
  call does not complete: \<open>deploy_to\<close> reads \<open>self.identity.user.username\<close>
  unconditionally and raises \<open>AttributeError\<close> before any Connection primitive is
  invoked.
\<close>

theorem deploy_init_to_string_user_fails:
  "deploy_init_to cfg (self\<lparr>identity := (identity self)\<lparr>user := UserStr s\<rparr>\<rparr>)
       (VInstance i # rest) kwargs w
     = (Inl (AttributeError ''username''), w)
   \<and> deploy_init_to_call cfg (self\<lparr>identity := (identity self)\<lparr>user := UserStr s\<rparr>\<rparr>)
       (VInstance i # rest) kwargs w
     = deploy_init_to_call cfg (self\<lparr>identity := (identity self)\<lparr>user := UserObj s\<rparr>\<rparr>)
       (VInstance i # rest) kwargs w"
proof
  let ?self = "self\<lparr>identity := (identity self)\<lparr>user := UserStr s\<rparr>\<rparr>"
  let ?k = "kwargs(''deploy'' \<mapsto> VDeployment (msd cfg
                       (case user (identity ?self) of UserStr s \<Rightarrow> s | UserObj name \<Rightarrow> name)
                       (if \<not> truthy (kwargs_get kwargs ''token'' (VPrim (PStr [])))
                        then inst_id i
                        else py_str w (kwargs_get kwargs ''token'' (VPrim (PStr []))))),
                   ''ssh_key'' \<mapsto> VPrim (PStr private_key),
                   ''timeout'' \<mapsto> VPrim (PInt 120))"
  have t: "truthy (kwargs_get ?k ''deploy'' (VPrim PNone))"
    by (simp add: kwargs_get_def)
  have "deploy_init_to cfg ?self (VInstance i # rest) kwargs w
          = deploy_to ?self (VInstance i # VInstance i # rest) ?k w"
    by (simp add: deploy_init_to_def deploy_init_to_call_instance)
  also have "\<dots> = (Inl (AttributeError ''username''), w)"
    by (rule deploy_to_user_string [OF t]) simp
  finally show "deploy_init_to cfg ?self (VInstance i # rest) kwargs w
                  = (Inl (AttributeError ''username''), w)" .
  show "deploy_init_to_call cfg ?self (VInstance i # rest) kwargs w
     = deploy_init_to_call cfg (self\<lparr>identity := (identity self)\<lparr>user := UserObj s\<rparr>\<rparr>)
       (VInstance i # rest) kwargs w"
    by (simp add: deploy_init_to_call_instance)
qed

lemma deploy_init_to_alice:
  "fst (deploy_init_to stub_settings (stub_driver (UserStr ''alice'') stub_connection)
          [VInstance stub_instance] Map.empty world0) = Inl (AttributeError ''username'')
   \<and> fst (deploy_init_to stub_settings (stub_driver (UserObj ''alice'') stub_connection)
          [VInstance stub_instance] Map.empty world0) = Inr True"
  by (simp add: deploy_init_to_def deploy_init_to_call_instance deploy_to_def kwargs_get_def
        getattr_username_def getattr_node_def stub_driver_def stub_identity_def
        stub_connection_def Let_def)



text \<open>\<open>AWSDriver.filter_machines\<close>: the substring test, and the three list
  comprehensions as filters when no lookup raises.\<close>

lemma str_contains_sublist: "str_contains word s = sublist word s"
  by (induction s) (auto simp: sublist_Cons_right)

lemma local_filter_machines_total:
  "(\<And>m. m \<in> set ms \<Longrightarrow> cond m = Inr (p m)) \<Longrightarrow>
     local_filter_machines ms cond = Inr (filter p ms)"
  by (induction ms) simp_all

lemma alias_cond_eq: "alias_cond m = Inr (has_kernel_alias m)"
  by (simp add: alias_cond_def has_kernel_alias_def)

lemma ownerid_cond_eq: "has_owner_keys m \<Longrightarrow> ownerid_cond m = Inr (has_owner_id m)"
  by (auto simp: ownerid_cond_def has_owner_id_def has_owner_keys_def getitem_def)

lemma owneralias_cond_eq: "has_owner_keys m \<Longrightarrow> owneralias_cond m = Inr (has_owner_alias m)"
  by (auto simp: owneralias_cond_def has_owner_alias_def has_owner_keys_def getitem_def)

lemma filter_machines_buckets:
  assumes "r = (case bl of None \<Rightarrow> default_black_list | Some x \<Rightarrow> x)"
    and "S = filter has_kernel_alias
               (APIFilterMixin_filter_machines matches ms (h r @ fixed_terms))"
    and "\<And>m. m \<in> set S \<Longrightarrow> has_owner_keys m"
  shows "fst (AWSDriver_filter_machines matches ms bl h)
           = Inr (filter has_owner_id S @ filter has_owner_alias S)"
proof -
  let ?F = "APIFilterMixin_filter_machines matches ms (h r @ fixed_terms)"
  have a: "local_filter_machines ?F alias_cond = Inr S"
    using assms(2) by (simp add: local_filter_machines_total [where p = has_kernel_alias] alias_cond_eq)
  have u: "local_filter_machines S ownerid_cond = Inr (filter has_owner_id S)"
    by (rule local_filter_machines_total) (simp add: ownerid_cond_eq assms(3))
  have b: "local_filter_machines S owneralias_cond = Inr (filter has_owner_alias S)"
    by (rule local_filter_machines_total) (simp add: owneralias_cond_eq assms(3))
  show ?thesis
    using a u b assms(1) by (simp add: AWSDriver_filter_machines_def Let_def)
qed

text \<open>
  C3. For the machine list A (alias "aki-1", owner id 099720109477), B (alias "ari-2",
  owner alias "amazon"), C (alias "m1", owner 999), D (alias "aki-x", blocked by the
  term "bitnami"), with A and B matching no word of the block-list,
  \<open>AWSDriver.filter_machines\<close> returns exactly [A, B]. In general, when every machine
  that survives the block-list and the alias test has both owner entries, the result is
  the owner-id matches among the survivors followed by the owner-alias matches among
  them, each in the order of the input.
\<close>

theorem filter_machines_example_and_order:
  assumes "r = (case bl of None \<Rightarrow> default_black_list | Some x \<Rightarrow> x)"
  shows "(matches machine_D ''bitnami''
          \<and> (\<forall>word \<in> set (h r @ fixed_terms).
                \<not> matches machine_A word \<and> \<not> matches machine_B word) \<longrightarrow>
          fst (AWSDriver_filter_machines matches
                 [machine_A, machine_B, machine_C, machine_D] bl h)
            = Inr [machine_A, machine_B])
       \<and> (S = filter has_kernel_alias
                 (APIFilterMixin_filter_machines matches ms (h r @ fixed_terms))
          \<and> (\<forall>m \<in> set S. has_owner_keys m) \<longrightarrow>
          fst (AWSDriver_filter_machines matches ms bl h)
            = Inr (filter has_owner_id S @ filter has_owner_alias S))"
proof (intro conjI impI)
  assume h: "matches machine_D ''bitnami''
          \<and> (\<forall>word \<in> set (h r @ fixed_terms).
                \<not> matches machine_A word \<and> \<not> matches machine_B word)"
  let ?ms = "[machine_A, machine_B, machine_C, machine_D]"
  have D: "list_ex (matches machine_D) (h r @ fixed_terms)"
    using h by (auto simp: list_ex_iff fixed_terms_def)
  have A: "\<not> list_ex (matches machine_A) (h r @ fixed_terms)"
    and B: "\<not> list_ex (matches machine_B) (h r @ fixed_terms)"
    using h by (auto simp: list_ex_iff)
  have F: "filter has_kernel_alias (APIFilterMixin_filter_machines matches ?ms (h r @ fixed_terms))
             = [machine_A, machine_B]"
    using A B D
    by (simp add: APIFilterMixin_filter_machines_def has_kernel_alias_def
          machine_A_def machine_B_def machine_C_def)
  have "fst (AWSDriver_filter_machines matches ?ms bl h)
          = Inr (filter has_owner_id [machine_A, machine_B]
                 @ filter has_owner_alias [machine_A, machine_B])"
    by (rule filter_machines_buckets
              [where r = r and S = "[machine_A, machine_B]" and ms = ?ms and h = h
                 and matches = matches, OF assms F [symmetric]])
       (auto simp: has_owner_keys_def machine_A_def machine_B_def)
  also have "\<dots> = Inr [machine_A, machine_B]"
    by (simp add: has_owner_id_def has_owner_alias_def machine_A_def machine_B_def)
  finally show "fst (AWSDriver_filter_machines matches ?ms bl h) = Inr [machine_A, machine_B]" .
next
  assume "S = filter has_kernel_alias
                 (APIFilterMixin_filter_machines matches ms (h r @ fixed_terms))
          \<and> (\<forall>m \<in> set S. has_owner_keys m)"
  then show "fst (AWSDriver_filter_machines matches ms bl h)
            = Inr (filter has_owner_id S @ filter has_owner_alias S)"
    using filter_machines_buckets
            [where r = r and S = S and ms = ms and h = h and matches = matches, OF assms]
    by blast
qed

theorem filter_machines_example_and_order_witness:
  "fst (AWSDriver_filter_machines stub_matches
          [machine_A, machine_B, machine_C, machine_D] None initial_heap)
     = Inr [machine_A, machine_B]
   \<and> fst (AWSDriver_filter_machines stub_matches [machine_B, machine_A] None initial_heap)
     = Inr [machine_A, machine_B]"
proof -
  have r: "default_black_list = (case None of None \<Rightarrow> default_black_list | Some x \<Rightarrow> x)"
    by simp
  have "fst (AWSDriver_filter_machines stub_matches
          [machine_A, machine_B, machine_C, machine_D] None initial_heap)
     = Inr [machine_A, machine_B]"
    using filter_machines_example_and_order
            [OF r, where matches = stub_matches and h = initial_heap]
    by (simp add: stub_matches_def machine_A_def machine_B_def machine_D_def
          initial_heap_def fixed_terms_def)
  moreover have "fst (AWSDriver_filter_machines stub_matches [machine_B, machine_A] None
                        initial_heap)
     = Inr [machine_A, machine_B]"
    using filter_machines_example_and_order
            [OF r, where matches = stub_matches and h = initial_heap
               and ms = "[machine_B, machine_A]" and S = "[machine_B, machine_A]"]
    by (simp add: APIFilterMixin_filter_machines_def stub_matches_def has_kernel_alias_def
          has_owner_keys_def has_owner_id_def has_owner_alias_def
          machine_A_def machine_B_def initial_heap_def fixed_terms_def)
  ultimately show ?thesis by simp
qed

end
